theory Spec2Isabelle
  imports Main "HOL-Library.Sublist"
begin

section \<open>The chat pipeline of server.js\<close>

text \<open>
  The embedding follows \<^verbatim>\<open>server.js\<close>: schema introspection
  (\<^verbatim>\<open>getDatabaseSchema\<close>), SQL synthesis (\<^verbatim>\<open>generateSQLQuery\<close>), execution
  (\<^verbatim>\<open>executeSQLQuery\<close>), narration (\<^verbatim>\<open>generateNaturalResponse\<close>) and the two
  routes \<^verbatim>\<open>POST /api/chat\<close> and \<^verbatim>\<open>GET /api/tables\<close>.

  The database pool and the generative model are the outside world; what they answer is a
  parameter of every function (the record \<open>world\<close>), and each call made to them is
  written to a log that the function returns next to its result. An \<^verbatim>\<open>async\<close> function
  that may reject returns a sum, \<open>Inl\<close> carrying the thrown error.
\<close>

subsection \<open>Strings\<close>

text \<open>
  A JavaScript string is a sequence of UTF-16 code units; a code unit is a natural number.
  \<open>lit\<close> turns an ASCII literal of the source into code units.
\<close>

type_synonym jsstring = "nat list"

definition lit :: "string \<Rightarrow> jsstring" where
  "lit s = map of_char s"

text \<open>
  The characters matched by \<^verbatim>\<open>\s\<close> and removed by \<^verbatim>\<open>String.prototype.trim\<close>:
  the WhiteSpace and LineTerminator code points of ECMAScript (TAB, LF, VT, FF, CR, SP,
  NBSP, U+1680, U+2000 to U+200A, U+2028, U+2029, U+202F, U+205F, U+3000, U+FEFF).
\<close>

definition is_space :: "nat \<Rightarrow> bool" where
  "is_space c = (c \<in> {9, 10, 11, 12, 13, 32, 160, 5760, 8232, 8233, 8239, 8287, 12288, 65279}
                 \<or> (8192 \<le> c \<and> c \<le> 8202))"

definition trimStart :: "jsstring \<Rightarrow> jsstring" where
  "trimStart s = dropWhile is_space s"

definition trimEnd :: "jsstring \<Rightarrow> jsstring" where
  "trimEnd s = rev (dropWhile is_space (rev s))"

definition trim :: "jsstring \<Rightarrow> jsstring" where
  "trim s = trimEnd (trimStart s)"

text \<open>
  Matching under the \<^verbatim>\<open>i\<close> flag (without \<^verbatim>\<open>u\<close>) compares canonicalized code
  units. The patterns of the source are ASCII; an ASCII pattern character is matched exactly
  by its two ASCII case variants, since a code unit from 128 on never canonicalizes below
  128. On ASCII \<open>canonicalize\<close> is upper-casing; elsewhere it is left as the identity,
  which decides every comparison with an ASCII pattern character the same way.
\<close>

definition canonicalize :: "nat \<Rightarrow> nat" where
  "canonicalize c = (if 97 \<le> c \<and> c \<le> 122 then c - 32 else c)"

text \<open>The literal pattern \<open>p\<close> matches at the start of \<open>s\<close> (\<^verbatim>\<open>/^p/i\<close>).\<close>

definition matches_ci :: "jsstring \<Rightarrow> jsstring \<Rightarrow> bool" where
  "matches_ci p s = (map canonicalize (take (length p) s) = map canonicalize p)"

definition ends_with :: "jsstring \<Rightarrow> jsstring \<Rightarrow> bool" where
  "ends_with p s = (length p \<le> length s \<and> drop (length s - length p) s = p)"

text \<open>
  \<^verbatim>\<open>.replace(/^```sql\s*/i, '')\<close>: an opening fence at the very start goes, with the
  white space after it.
\<close>

definition strip_sql_fence :: "jsstring \<Rightarrow> jsstring" where
  "strip_sql_fence s =
     (if matches_ci (lit ''```sql'') s then dropWhile is_space (drop 6 s) else s)"

text \<open>
  \<^verbatim>\<open>.replace(/\s*```$/i, '')\<close>: without the \<^verbatim>\<open>m\<close> flag \<^verbatim>\<open>$\<close> is the end of the
  input, so the match is the last three characters and the longest run of white space before
  them.
\<close>

definition strip_closing_fence :: "jsstring \<Rightarrow> jsstring" where
  "strip_closing_fence s =
     (if ends_with (lit ''```'') s then trimEnd (take (length s - 3) s) else s)"

text \<open>\<^verbatim>\<open>.replace(/^SQL Query:\s*/i, '')\<close>.\<close>

definition strip_label :: "jsstring \<Rightarrow> jsstring" where
  "strip_label s =
     (if matches_ci (lit ''SQL Query:'') s then dropWhile is_space (drop 10 s) else s)"

text \<open>
  Lines 106 to 113 of \<^verbatim>\<open>generateSQLQuery\<close>: the text of the model's answer is trimmed,
  the three replacements run in this order, and the result is trimmed again.
\<close>

definition cleanedQuery :: "jsstring \<Rightarrow> jsstring" where
  "cleanedQuery text =
     trim (strip_label (strip_closing_fence (strip_sql_fence (trim text))))"

text \<open>
  The two wrappers a model answer may put around a statement: a code fence, with white
  space \<open>ws1\<close> after the opening and \<open>ws2\<close> before the closing marker, and the label
  followed by white space \<open>ws\<close>.
\<close>

definition fenced :: "jsstring \<Rightarrow> jsstring \<Rightarrow> jsstring \<Rightarrow> jsstring" where
  "fenced ws1 ws2 body = lit ''```sql'' @ ws1 @ body @ ws2 @ lit ''```''"

definition labelled :: "jsstring \<Rightarrow> jsstring \<Rightarrow> jsstring" where
  "labelled ws body = lit ''SQL Query:'' @ ws @ body"

text \<open>The string contains three backticks in a row.\<close>

fun has_fence :: "jsstring \<Rightarrow> bool" where
  "has_fence (a # b # c # s) = ((a = 96 \<and> b = 96 \<and> c = 96) \<or> has_fence (b # c # s))"
| "has_fence _ = False"

text \<open>\<^verbatim>\<open>Array.prototype.join\<close>.\<close>

fun join :: "jsstring \<Rightarrow> jsstring list \<Rightarrow> jsstring" where
  "join sep [] = []"
| "join sep [x] = x"
| "join sep (x # y # ys) = x @ sep @ join sep (y # ys)"

subsection \<open>Objects and their key order\<close>

text \<open>
  An object built by assignments is the list of its own properties in the order of their
  creation. \<^verbatim>\<open>Object.keys\<close> and \<^verbatim>\<open>Object.entries\<close> list the array indices first
  (canonical decimal strings below \<open>2\<^sup>3\<^sup>2 - 1\<close>), in ascending numeric order, and then
  the other keys in creation order.
\<close>

definition is_digit :: "nat \<Rightarrow> bool" where
  "is_digit c = (48 \<le> c \<and> c \<le> 57)"

definition index_value :: "jsstring \<Rightarrow> nat" where
  "index_value k = foldl (\<lambda>n c. 10 * n + (c - 48)) 0 k"

definition is_array_index :: "jsstring \<Rightarrow> bool" where
  "is_array_index k =
     (k \<noteq> [] \<and> list_all is_digit k \<and> (length k = 1 \<or> hd k \<noteq> 48)
      \<and> index_value k < 4294967295)"

definition object_entries :: "(jsstring \<times> 'v) list \<Rightarrow> (jsstring \<times> 'v) list" where
  "object_entries obj =
     sort_key (\<lambda>p. index_value (fst p)) (filter (\<lambda>p. is_array_index (fst p)) obj)
     @ filter (\<lambda>p. \<not> is_array_index (fst p)) obj"

definition object_keys :: "(jsstring \<times> 'v) list \<Rightarrow> jsstring list" where
  "object_keys obj = map fst (object_entries obj)"

text \<open>
  The properties every plain object inherits from \<^verbatim>\<open>Object.prototype\<close>. Reading one of
  them from an object that has no own property of that name gives a function, or the
  prototype itself for \<^verbatim>\<open>__proto__\<close>: a truthy value without a \<^verbatim>\<open>push\<close> method.
\<close>

definition prototype_keys :: "jsstring list" where
  "prototype_keys = map lit
     [''constructor'', ''__defineGetter__'', ''__defineSetter__'', ''hasOwnProperty'',
      ''__lookupGetter__'', ''__lookupSetter__'', ''isPrototypeOf'', ''propertyIsEnumerable'',
      ''toString'', ''valueOf'', ''__proto__'', ''toLocaleString'']"

subsection \<open>Data\<close>

text \<open>A thrown \<^verbatim>\<open>Error\<close>; \<open>error_message\<close> is its property \<^verbatim>\<open>message\<close>.\<close>

datatype js_error = JsError (error_message: jsstring)

text \<open>A row of \<^verbatim>\<open>information_schema.columns\<close>, as the introspection query selects it.\<close>

record column_row =
  table_name :: jsstring
  column_name :: jsstring
  data_type :: jsstring
  is_nullable :: jsstring
  column_default :: "jsstring option"

text \<open>
  An entry of the array the schema object holds for a table: \<^verbatim>\<open>{column, type, nullable,
  default}\<close>; \<open>default_value\<close> is the property \<^verbatim>\<open>default\<close>, a string or \<^verbatim>\<open>null\<close>.
\<close>

record column_descriptor =
  column :: jsstring
  type :: jsstring
  nullable :: bool
  default_value :: "jsstring option"

type_synonym schema = "(jsstring \<times> column_descriptor list) list"

text \<open>
  What the code reads from the value \<^verbatim>\<open>pool.query\<close> resolves to: \<^verbatim>\<open>rows\<close>,
  \<^verbatim>\<open>rowCount\<close> and the names of the entries of \<^verbatim>\<open>fields\<close>. \<open>None\<close> is a property
  that is missing (or, for \<^verbatim>\<open>rowCount\<close>, \<^verbatim>\<open>null\<close>). For one statement the value is a
  \<^verbatim>\<open>pg\<close> result: \<^verbatim>\<open>rows\<close> is an array of opaque row objects, \<^verbatim>\<open>rowCount\<close> a number
  or \<^verbatim>\<open>null\<close>. For a text of several statements the value is an array of results, which
  has none of the three properties.
\<close>

record 'row pg_result =
  rows :: "'row list option"
  rowCount :: "int option"
  result_fields :: "jsstring list option"

text \<open>
  The object \<^verbatim>\<open>executeSQLQuery\<close> returns: \<^verbatim>\<open>{success: true, data, rowCount, fields}\<close>
  or \<^verbatim>\<open>{success: false, error, sqlQuery}\<close>. \<^verbatim>\<open>data\<close> is \<open>None\<close> when the result had
  no \<^verbatim>\<open>rows\<close>.
\<close>

datatype 'row sql_result =
    Success "'row list option" "int option" "jsstring list"
  | Failure jsstring jsstring

text \<open>
  The prompt given to \<^verbatim>\<open>model.generateContent\<close>, as the values the template
  interpolates; the fixed text around them is the same in every call of one kind.
  \<open>SqlPrompt\<close>: the schema description and the question.
  \<open>ResultPrompt\<close>: the question, the query, \<^verbatim>\<open>rowCount\<close> and the first five rows.
  \<open>NoResultPrompt\<close>: the question, the query and the error text.
\<close>

datatype 'row prompt =
    SqlPrompt jsstring jsstring
  | ResultPrompt jsstring jsstring "int option" "'row list"
  | NoResultPrompt jsstring jsstring jsstring

text \<open>A call to the outside world.\<close>

datatype 'row call =
    PoolQuerySchema
  | PoolQuery jsstring
  | GenerateContent "'row prompt"

text \<open>
  The answers of the outside world: to the introspection query, to a SQL text, and to a
  prompt (\<^verbatim>\<open>generateContent\<close> followed by \<^verbatim>\<open>result.response.text()\<close>). \<open>Inl\<close> is a
  rejected promise or a thrown error.
\<close>

record 'row world =
  schema_rows :: "js_error + column_row list"
  run_query :: "jsstring \<Rightarrow> js_error + 'row pg_result"
  generateContent :: "'row prompt \<Rightarrow> js_error + jsstring"

text \<open>
  The \<^verbatim>\<open>data\<close> object of a chat response; \<open>preview = None\<close> is \<^verbatim>\<open>null\<close>, and
  \<open>fields'\<close> is the property \<^verbatim>\<open>fields\<close>.
\<close>

record 'row chat_data =
  sqlQuery :: jsstring
  resultCount :: int
  hasData :: bool
  preview :: "'row list option"
  fields' :: "jsstring list"

text \<open>
  The JSON bodies of \<^verbatim>\<open>POST /api/chat\<close>, one constructor for each object literal of
  the handler: \<^verbatim>\<open>{error}\<close>, \<^verbatim>\<open>{response, type}\<close>, \<^verbatim>\<open>{response, type, data}\<close> and
  \<^verbatim>\<open>{response, type, error}\<close>. \<open>ResponseTypePartialData\<close> is the third literal when
  \<^verbatim>\<open>hasData\<close> and \<^verbatim>\<open>preview\<close> evaluate to \<^verbatim>\<open>undefined\<close>, which the JSON
  encoding leaves out: \<^verbatim>\<open>data\<close> then holds \<^verbatim>\<open>sqlQuery\<close>, \<^verbatim>\<open>resultCount\<close> and
  \<^verbatim>\<open>fields\<close> only.
\<close>

datatype 'row chat_body =
    ErrorBody jsstring
  | ResponseType jsstring jsstring
  | ResponseTypeData jsstring jsstring "'row chat_data"
  | ResponseTypePartialData jsstring jsstring jsstring int "jsstring list"
  | ResponseTypeError jsstring jsstring jsstring

text \<open>
  \<^verbatim>\<open>req.body\<close>: \<open>NoBody\<close> when it is \<^verbatim>\<open>undefined\<close> (no body was parsed), otherwise
  an object, given by its property \<^verbatim>\<open>message\<close>: a string, or \<open>None\<close> when the object
  has no message.
\<close>

datatype request_body = NoBody | Body "jsstring option"

text \<open>
  The bodies of \<^verbatim>\<open>GET /api/tables\<close>: \<^verbatim>\<open>{success: true, tables, schema}\<close> and
  \<^verbatim>\<open>{success: false, error}\<close>.
\<close>

datatype tables_body =
    TablesSuccess "jsstring list" schema
  | TablesFailure jsstring

text \<open>
  \<^verbatim>\<open>const x = await f(); rest\<close>: an error of \<open>f\<close> ends the block, otherwise \<open>rest\<close>
  runs and its calls follow those of \<open>f\<close>.
\<close>

definition await ::
  "('e + 'a) \<times> 'c list \<Rightarrow> ('a \<Rightarrow> ('e + 'b) \<times> 'c list) \<Rightarrow> ('e + 'b) \<times> 'c list" where
  "await m rest =
     (case m of
        (Inl e, l) \<Rightarrow> (Inl e, l)
      | (Inr a, l) \<Rightarrow> (case rest a of (r, l') \<Rightarrow> (r, l @ l')))"

subsection \<open>getDatabaseSchema\<close>

text \<open>
  One step of the \<^verbatim>\<open>forEach\<close>: an own property gets the descriptor pushed; a name that is
  not yet a property is created with an empty array first, unless the lookup finds an
  inherited property, which is truthy, so nothing is created and \<^verbatim>\<open>push\<close> throws a
  TypeError.
\<close>

fun push_column :: "jsstring \<Rightarrow> column_descriptor \<Rightarrow> schema \<Rightarrow> schema" where
  "push_column name d [] = [(name, [d])]"
| "push_column name d ((k, cols) # rest) =
     (if k = name then (k, cols @ [d]) # rest else (k, cols) # push_column name d rest)"

definition group_row :: "schema \<Rightarrow> column_row \<Rightarrow> js_error + schema" where
  "group_row schema row =
     (let d = \<lparr>column = column_name row, type = data_type row,
                nullable = (is_nullable row = lit ''YES''),
                default_value = column_default row\<rparr>
      in if table_name row \<notin> fst ` set schema \<and> table_name row \<in> set prototype_keys
         then Inl (JsError (lit ''schema[row.table_name].push is not a function''))
         else Inr (push_column (table_name row) d schema))"

fun group_rows :: "schema \<Rightarrow> column_row list \<Rightarrow> js_error + schema" where
  "group_rows schema [] = Inr schema"
| "group_rows schema (row # rest) =
     (case group_row schema row of
        Inl e \<Rightarrow> Inl e
      | Inr schema' \<Rightarrow> group_rows schema' rest)"

text \<open>The whole body is inside \<^verbatim>\<open>try\<close>; the \<^verbatim>\<open>catch\<close> returns the empty object.\<close>

definition getDatabaseSchema :: "'row world \<Rightarrow> (js_error + schema) \<times> 'row call list" where
  "getDatabaseSchema w =
     (case (case schema_rows w of
              Inl e \<Rightarrow> Inl e
            | Inr result_rows \<Rightarrow> group_rows [] result_rows) of
        Inl error \<Rightarrow> (Inr [], [PoolQuerySchema])
      | Inr schema \<Rightarrow> (Inr schema, [PoolQuerySchema]))"

subsection \<open>generateSQLQuery\<close>

definition columnList :: "column_descriptor list \<Rightarrow> jsstring" where
  "columnList columns =
     join (lit '', '') (map (\<lambda>col. column col @ lit '' ('' @ type col @ lit '')'') columns)"

definition schemaDescription :: "schema \<Rightarrow> jsstring" where
  "schemaDescription schema =
     join [10] (map (\<lambda>(tableName, columns).
                       lit ''Table '' @ [34] @ tableName @ [34] @ lit '': '' @ columnList columns)
                  (object_entries schema))"

text \<open>
  The \<^verbatim>\<open>catch\<close> logs the model's error and throws a new one with a fixed message.
\<close>

definition generateSQLQuery ::
  "'row world \<Rightarrow> jsstring \<Rightarrow> schema \<Rightarrow> (js_error + jsstring) \<times> 'row call list" where
  "generateSQLQuery w naturalLanguageQuery schema =
     (let prompt = SqlPrompt (schemaDescription schema) naturalLanguageQuery
      in case generateContent w prompt of
           Inl error \<Rightarrow> (Inl (JsError (lit ''Failed to generate SQL query'')), [GenerateContent prompt])
         | Inr text \<Rightarrow> (Inr (cleanedQuery text), [GenerateContent prompt]))"

subsection \<open>executeSQLQuery\<close>

text \<open>
  The parameter \<open>q\<close> is \<^verbatim>\<open>sqlQuery\<close>. The query runs inside \<^verbatim>\<open>try\<close>; the
  \<^verbatim>\<open>catch\<close> returns the failure object, so the function itself never throws.
  \<^verbatim>\<open>result.fields?.map(field => field.name) || []\<close> is the list of names, and the empty
  list when the result has no \<^verbatim>\<open>fields\<close>.
\<close>

definition executeSQLQuery ::
  "'row world \<Rightarrow> jsstring \<Rightarrow> (js_error + 'row sql_result) \<times> 'row call list" where
  "executeSQLQuery w q =
     (case run_query w q of
        Inr result \<Rightarrow>
          (Inr (Success (rows result) (rowCount result)
                  (case result_fields result of None \<Rightarrow> [] | Some names \<Rightarrow> names)),
           [PoolQuery q])
      | Inl error \<Rightarrow> (Inr (Failure (error_message error) q), [PoolQuery q]))"

subsection \<open>generateNaturalResponse\<close>

definition fallback_response :: jsstring where
  "fallback_response =
     lit ''I found some data but had trouble explaining it. Please try rephrasing your question.''"

text \<open>
  Lines 150 to 181, before the \<^verbatim>\<open>try\<close>. The prompt is chosen by
  \<^verbatim>\<open>sqlResult.success && sqlResult.data.length > 0\<close>: for a success without \<^verbatim>\<open>data\<close>
  reading \<^verbatim>\<open>length\<close> throws a TypeError (the message is that of V8). In
  \<^verbatim>\<open>sqlResult.error || 'No results found'\<close> an empty success has no \<^verbatim>\<open>error\<close>, and an
  empty message is falsy.
\<close>

definition narration_prompt ::
  "jsstring \<Rightarrow> 'row sql_result \<Rightarrow> jsstring \<Rightarrow> js_error + 'row prompt" where
  "narration_prompt query sqlResult originalQuestion =
     (case sqlResult of
        Success data count names \<Rightarrow>
          (case data of
             None \<Rightarrow> Inl (JsError (lit ''Cannot read properties of undefined (reading 'length')''))
           | Some result_rows \<Rightarrow>
               if length result_rows > 0
               then Inr (ResultPrompt originalQuestion query count (take 5 result_rows))
               else Inr (NoResultPrompt originalQuestion query (lit ''No results found'')))
      | Failure error q \<Rightarrow>
          Inr (NoResultPrompt originalQuestion query
                 (if error = [] then lit ''No results found'' else error)))"

text \<open>
  Only the model call is inside \<^verbatim>\<open>try\<close>; its \<^verbatim>\<open>catch\<close> returns a fixed sentence. An
  error of the lines before it leaves the function.
\<close>

definition generateNaturalResponse ::
  "'row world \<Rightarrow> jsstring \<Rightarrow> 'row sql_result \<Rightarrow> jsstring \<Rightarrow> (js_error + jsstring) \<times> 'row call list" where
  "generateNaturalResponse w query sqlResult originalQuestion =
     (case narration_prompt query sqlResult originalQuestion of
        Inl error \<Rightarrow> (Inl error, [])
      | Inr prompt \<Rightarrow>
          (case generateContent w prompt of
             Inr text \<Rightarrow> (Inr (trim text), [GenerateContent prompt])
           | Inl error \<Rightarrow> (Inr fallback_response, [GenerateContent prompt])))"

subsection \<open>POST /api/chat\<close>

definition unavailable_response :: jsstring where
  "unavailable_response =
     lit ''I'm having trouble connecting to the database right now. Please try again later.''"

definition apology_response :: jsstring where
  "apology_response =
     lit ''I encountered an error while processing your request. Please try again or rephrase your question.''"

text \<open>
  The object \<^verbatim>\<open>response\<close> of lines 223 to 233. \<^verbatim>\<open>sqlResult.rowCount || 0\<close> is 0 for a
  missing, \<^verbatim>\<open>null\<close> or zero count. An array is truthy, so with \<^verbatim>\<open>data\<close> an array
  \<^verbatim>\<open>hasData\<close> is \<^verbatim>\<open>data.length > 0\<close> and \<^verbatim>\<open>preview\<close> is \<^verbatim>\<open>data.slice(0, 10)\<close>;
  for a success without \<^verbatim>\<open>data\<close> both \<^verbatim>\<open>success && data && ...\<close> and
  \<^verbatim>\<open>data?.slice(0, 10)\<close> are \<^verbatim>\<open>undefined\<close>.
\<close>

definition response :: "jsstring \<Rightarrow> jsstring \<Rightarrow> 'row sql_result \<Rightarrow> 'row chat_body" where
  "response naturalResponse query sqlResult =
     (case sqlResult of
        Success data count names \<Rightarrow>
          (case data of
             Some result_rows \<Rightarrow>
               ResponseTypeData naturalResponse (lit ''success'')
                 \<lparr>sqlQuery = query,
                  resultCount = (case count of None \<Rightarrow> 0 | Some n \<Rightarrow> n),
                  hasData = (length result_rows > 0),
                  preview = Some (take 10 result_rows),
                  fields' = names\<rparr>
           | None \<Rightarrow>
               ResponseTypePartialData naturalResponse (lit ''success'') query
                 (case count of None \<Rightarrow> 0 | Some n \<Rightarrow> n) names)
      | Failure error q \<Rightarrow>
          ResponseTypeData naturalResponse (lit ''error'')
            \<lparr>sqlQuery = query, resultCount = 0, hasData = False, preview = None, fields' = []\<rparr>)"

text \<open>
  The handler; the result is the status, the body and the calls made. Everything is inside
  \<^verbatim>\<open>try\<close>. \<^verbatim>\<open>const { message } = req.body\<close> throws a TypeError when \<^verbatim>\<open>req.body\<close> is
  \<^verbatim>\<open>undefined\<close> (the message is that of V8). \<^verbatim>\<open>!message\<close> holds for a missing message
  and for the empty string.
\<close>

definition chat :: "'row world \<Rightarrow> request_body \<Rightarrow> (nat \<times> 'row chat_body) \<times> 'row call list" where
  "chat w body =
     (case
        (case body of
           NoBody \<Rightarrow>
             (Inl (JsError (lit ''Cannot destructure property 'message' of 'req.body' as it is undefined.'')),
              [])
         | Body message \<Rightarrow>
             (case message of
                None \<Rightarrow> (Inr (400, ErrorBody (lit ''Message is required'')), [])
              | Some msg \<Rightarrow>
                  if msg = [] then (Inr (400, ErrorBody (lit ''Message is required'')), [])
                  else
                    await (getDatabaseSchema w) (\<lambda>schema.
                      if length (object_keys schema) = 0
                      then (Inr (200, ResponseType unavailable_response (lit ''error'')), [])
                      else
                        await (generateSQLQuery w msg schema) (\<lambda>query.
                        await (executeSQLQuery w query) (\<lambda>sqlResult.
                        await (generateNaturalResponse w query sqlResult msg) (\<lambda>naturalResponse.
                          (Inr (200, response naturalResponse query sqlResult), [])))))))
      of
        (Inr sent, calls) \<Rightarrow> (sent, calls)
      | (Inl error, calls) \<Rightarrow>
          ((500, ResponseTypeError apology_response (lit ''error'') (error_message error)), calls))"

subsection \<open>GET /api/tables\<close>

definition tables :: "'row world \<Rightarrow> (nat \<times> tables_body) \<times> 'row call list" where
  "tables w =
     (case getDatabaseSchema w of
        (Inr schema, calls) \<Rightarrow> ((200, TablesSuccess (object_keys schema) schema), calls)
      | (Inl error, calls) \<Rightarrow> ((500, TablesFailure (error_message error)), calls))"

text \<open>
  Reading a property of a chat body: \<open>None\<close> when the body has no such property.
  \<open>body_data\<close> is the \<^verbatim>\<open>data\<close> object with its five properties, and \<open>None\<close> also
  when some of them are left out.
\<close>

fun body_response :: "'row chat_body \<Rightarrow> jsstring option" where
  "body_response (ErrorBody e) = None"
| "body_response (ResponseType r t) = Some r"
| "body_response (ResponseTypeData r t d) = Some r"
| "body_response (ResponseTypePartialData r t q c ns) = Some r"
| "body_response (ResponseTypeError r t e) = Some r"

fun body_type :: "'row chat_body \<Rightarrow> jsstring option" where
  "body_type (ErrorBody e) = None"
| "body_type (ResponseType r t) = Some t"
| "body_type (ResponseTypeData r t d) = Some t"
| "body_type (ResponseTypePartialData r t q c ns) = Some t"
| "body_type (ResponseTypeError r t e) = Some t"

fun body_data :: "'row chat_body \<Rightarrow> 'row chat_data option" where
  "body_data (ResponseTypeData r t d) = Some d"
| "body_data _ = None"

fun body_error :: "'row chat_body \<Rightarrow> jsstring option" where
  "body_error (ErrorBody e) = Some e"
| "body_error (ResponseTypeError r t e) = Some e"
| "body_error _ = None"

subsection \<open>Example worlds\<close>

text \<open>
  Concrete worlds for the instances below. In \<open>demo_world\<close> the database has one table,
  \<^verbatim>\<open>employees(id integer, status text)\<close>; the answers of the model to the SQL prompt, of
  the database to the generated query and of the model to the narration prompt are its
  three parameters. In \<open>offline_world\<close> every database query is refused.
\<close>

definition demo_rows :: "column_row list" where
  "demo_rows =
     [\<lparr>table_name = lit ''employees'', column_name = lit ''id'', data_type = lit ''integer'',
       is_nullable = lit ''NO'', column_default = None\<rparr>,
      \<lparr>table_name = lit ''employees'', column_name = lit ''status'', data_type = lit ''text'',
       is_nullable = lit ''YES'', column_default = None\<rparr>]"

definition demo_schema :: schema where
  "demo_schema =
     [(lit ''employees'',
       [\<lparr>column = lit ''id'', type = lit ''integer'', nullable = False, default_value = None\<rparr>,
        \<lparr>column = lit ''status'', type = lit ''text'', nullable = True, default_value = None\<rparr>])]"

definition demo_world ::
  "(js_error + jsstring) \<Rightarrow> (js_error + nat pg_result) \<Rightarrow> (js_error + jsstring) \<Rightarrow> nat world" where
  "demo_world sql_answer query_answer narration_answer =
     \<lparr>schema_rows = Inr demo_rows,
      run_query = (\<lambda>q. query_answer),
      generateContent = (\<lambda>p. case p of SqlPrompt d n \<Rightarrow> sql_answer
                                 | ResultPrompt n q c r \<Rightarrow> narration_answer
                                 | NoResultPrompt n q e \<Rightarrow> narration_answer)\<rparr>"

definition offline_world :: "nat world" where
  "offline_world =
     \<lparr>schema_rows = Inl (JsError (lit ''connect ECONNREFUSED'')),
      run_query = (\<lambda>q. Inl (JsError (lit ''connect ECONNREFUSED''))),
      generateContent = (\<lambda>p. Inr (lit ''SELECT 1''))\<rparr>"

section \<open>Properties of the query clean-up\<close>

subsection \<open>Trimming\<close>

lemma dropWhile_keep:
  "q \<noteq> [] \<Longrightarrow> \<not> P (hd q) \<Longrightarrow> dropWhile P (a @ q) = dropWhile P a @ q"
  by (induction a) (simp_all add: neq_Nil_conv, auto)

lemma dropWhile_all: "list_all P ws \<Longrightarrow> dropWhile P (ws @ s) = dropWhile P s"
  by (induction ws) simp_all

lemma trimStart_ws: "list_all is_space ws \<Longrightarrow> trimStart (ws @ s) = trimStart s"
  by (simp add: trimStart_def dropWhile_all)

lemma trimEnd_ws: "list_all is_space ws \<Longrightarrow> trimEnd (s @ ws) = trimEnd s"
  by (simp add: trimEnd_def dropWhile_all)

lemma trimStart_keep:
  "q \<noteq> [] \<Longrightarrow> \<not> is_space (hd q) \<Longrightarrow> trimStart (s @ q) = trimStart s @ q"
  by (simp add: trimStart_def dropWhile_keep)

lemma trimEnd_keep:
  "p \<noteq> [] \<Longrightarrow> \<not> is_space (last p) \<Longrightarrow> trimEnd (p @ s) = p @ trimEnd s"
  by (simp add: trimEnd_def dropWhile_keep hd_rev)

lemma trimEnd_all: "list_all is_space s \<Longrightarrow> trimEnd s = []"
  using trimEnd_ws [of s "[]"] by (simp add: trimEnd_def)

lemma trimStart_all: "list_all is_space s \<Longrightarrow> trimStart s = []"
  using trimStart_ws [of s "[]"] by (simp add: trimStart_def)

lemma trim_commute: "trimStart (trimEnd s) = trimEnd (trimStart s)"
proof (cases "list_all is_space s")
  case True
  then have "trimEnd s = []" "trimStart s = []"
    by (simp_all add: trimEnd_all trimStart_all)
  moreover have "trimStart [] = []" "trimEnd [] = []"
    by (simp_all add: trimStart_def trimEnd_def)
  ultimately show ?thesis by simp
next
  case False
  then have "\<exists>x \<in> set s. \<not> is_space x" by (simp add: list_all_iff)
  then obtain l x m where s: "s = l @ x # m" and x: "\<not> is_space x"
    and l: "\<forall>y \<in> set l. \<not> \<not> is_space y"
    using split_list_first_prop [of s "\<lambda>c. \<not> is_space c"] by blast
  from l have l': "list_all is_space l" by (simp add: list_all_iff)
  have a: "trimStart s = x # m"
    using trimStart_ws [OF l', of "x # m"] x by (simp add: s trimStart_def)
  have b: "trimEnd s = (l @ [x]) @ trimEnd m"
    using trimEnd_keep [of "l @ [x]" m] x by (simp add: s)
  have c: "trimEnd (x # m) = [x] @ trimEnd m"
    using trimEnd_keep [of "[x]" m] x by simp
  have "trimStart (trimEnd s) = trimStart (x # trimEnd m)"
    using trimStart_ws [OF l', of "x # trimEnd m"] by (simp add: b)
  also have "\<dots> = x # trimEnd m" using x by (simp add: trimStart_def)
  finally show ?thesis by (simp add: a c)
qed

lemma trim_alt: "trim s = trimStart (trimEnd s)"
  by (simp add: trim_def trim_commute)

lemma trimStart_idem: "trimStart (trimStart s) = trimStart s"
  by (simp add: trimStart_def)

lemma trimEnd_idem: "trimEnd (trimEnd s) = trimEnd s"
  by (simp add: trimEnd_def)

lemma trim_idem: "trim (trim s) = trim s"
  by (metis trim_def trim_commute trimStart_idem trimEnd_idem)

lemma trim_ws_left: "list_all is_space ws \<Longrightarrow> trim (ws @ s) = trim s"
  by (simp add: trim_def trimStart_ws)

lemma trim_ws_right: "list_all is_space ws \<Longrightarrow> trim (s @ ws) = trim s"
  by (simp add: trim_alt trimEnd_ws)

lemma trim_fixed:
  "s \<noteq> [] \<Longrightarrow> \<not> is_space (hd s) \<Longrightarrow> \<not> is_space (last s) \<Longrightarrow> trim s = s"
  using trimEnd_keep [of s "[]"] by (cases s) (simp_all add: trim_def trimStart_def trimEnd_def)


lemma lits:
  "lit ''```sql'' = [96, 96, 96, 115, 113, 108]"
  "lit ''```'' = [96, 96, 96]"
  "lit ''SQL Query:'' = [83, 81, 76, 32, 81, 117, 101, 114, 121, 58]"
  by (simp_all add: lit_def)

lemma strip_sql_fence_open: "strip_sql_fence (lit ''```sql'' @ r) = trimStart r"
  by (simp add: strip_sql_fence_def matches_ci_def lits trimStart_def)

lemma strip_closing_fence_close: "strip_closing_fence (r @ lit ''```'') = trimEnd r"
  by (simp add: strip_closing_fence_def ends_with_def lits)

lemma strip_label_open: "strip_label (lit ''SQL Query:'' @ r) = trimStart r"
  by (simp add: strip_label_def matches_ci_def lits trimStart_def)

lemma trim_fenced: "trim (fenced ws1 ws2 body) = fenced ws1 ws2 body"
  by (rule trim_fixed) (simp_all add: fenced_def lits is_space_def)

lemma roundtrip_fence:
  assumes ws: "list_all is_space ws1" "list_all is_space ws2"
    and nl: "\<not> matches_ci (lit ''SQL Query:'') (trim inner)"
  shows "cleanedQuery (fenced ws1 ws2 inner) = trim inner"
proof -
  have k: "lit ''```'' \<noteq> []" "\<not> is_space (hd (lit ''```''))"
    by (simp_all add: lits is_space_def)
  have "strip_sql_fence (fenced ws1 ws2 inner) = trimStart ((inner @ ws2) @ lit ''```'')"
    using trimStart_ws [OF ws(1)] by (simp add: fenced_def strip_sql_fence_open)
  also have "\<dots> = trimStart (inner @ ws2) @ lit ''```''"
    using k by (rule trimStart_keep)
  finally have "strip_closing_fence (strip_sql_fence (fenced ws1 ws2 inner)) = trim (inner @ ws2)"
    by (simp add: strip_closing_fence_close trim_def)
  also have "\<dots> = trim inner" using ws(2) by (rule trim_ws_right)
  finally show ?thesis
    using nl by (simp add: cleanedQuery_def trim_fenced strip_label_def trim_idem)
qed

lemma roundtrip_fence_label:
  assumes ws: "list_all is_space ws1" "list_all is_space ws2" "list_all is_space ws3"
  shows "cleanedQuery (fenced ws1 ws3 (labelled ws2 inner)) = trim inner"
proof -
  let ?L = "lit ''SQL Query:''"
  have k: "lit ''```'' \<noteq> []" "\<not> is_space (hd (lit ''```''))"
    by (simp_all add: lits is_space_def)
  have l: "?L \<noteq> []" "\<not> is_space (hd ?L)" "\<not> is_space (last ?L)"
    by (simp_all add: lits is_space_def)
  have "strip_sql_fence (fenced ws1 ws3 (labelled ws2 inner))
          = trimStart ((?L @ ws2 @ inner @ ws3) @ lit ''```'')"
    using trimStart_ws [OF ws(1)] by (simp add: fenced_def labelled_def strip_sql_fence_open)
  also have "\<dots> = trimStart (?L @ ws2 @ inner @ ws3) @ lit ''```''"
    using k by (rule trimStart_keep)
  also have "trimStart (?L @ ws2 @ inner @ ws3) = ?L @ ws2 @ inner @ ws3"
    using l by (simp add: trimStart_def lits)
  finally have "strip_closing_fence (strip_sql_fence (fenced ws1 ws3 (labelled ws2 inner)))
          = trimEnd (?L @ ((ws2 @ inner) @ ws3))"
    using strip_closing_fence_close [of "?L @ ws2 @ inner @ ws3"] by simp
  also have "\<dots> = ?L @ trimEnd ((ws2 @ inner) @ ws3)"
    using l(1,3) by (rule trimEnd_keep)
  also have "trimEnd ((ws2 @ inner) @ ws3) = trimEnd (ws2 @ inner)"
    using ws(3) by (rule trimEnd_ws)
  finally have "strip_label (strip_closing_fence (strip_sql_fence (fenced ws1 ws3 (labelled ws2 inner))))
          = trim (ws2 @ inner)"
    by (simp add: strip_label_open trim_alt)
  also have "\<dots> = trim inner" using ws(2) by (rule trim_ws_left)
  finally show ?thesis
    by (simp add: cleanedQuery_def trim_fenced trim_idem)
qed


lemma ends_with_suffix: "ends_with p s \<longleftrightarrow> suffix p s"
proof
  assume "ends_with p s"
  then have "s = take (length s - length p) s @ p"
    using append_take_drop_id [of "length s - length p" s] by (simp add: ends_with_def)
  then show "suffix p s" unfolding suffix_def by blast
next
  assume "suffix p s"
  then obtain zs where "s = zs @ p" unfolding suffix_def by blast
  then show "ends_with p s" by (simp add: ends_with_def)
qed

lemma fence_suffix_tail:
  assumes "suffix [96, 96, 96] (a @ y)" "a \<noteq> []" "last a \<noteq> (96::nat)"
  shows "suffix [96, 96, 96] y"
proof -
  from assms(1) consider "suffix [96, 96, 96] y"
    | xs' where "[96, 96, 96] = xs' @ y" "suffix xs' a"
    by (auto simp: suffix_append)
  then show ?thesis
  proof cases
    case 1 then show ?thesis .
  next
    case 2
    show ?thesis
    proof (cases "xs' = []")
      case True with 2 show ?thesis by simp
    next
      case False
      with 2(2) assms(2) have "last xs' = last a"
        by (auto simp: suffix_def)
      moreover from False 2(1) have "last xs' \<in> set [96, 96, 96::nat]"
        by (metis last_in_set set_append UnI1)
      ultimately show ?thesis using assms(3) by simp
    qed
  qed
qed

lemma has_fence_Cons: "has_fence s \<Longrightarrow> has_fence (x # s)"
  by (cases s rule: has_fence.cases) simp_all

lemma has_fence_prepend: "has_fence s \<Longrightarrow> has_fence (xs @ s)"
  by (induction xs) (simp_all add: has_fence_Cons)

lemma has_fence_here: "has_fence ([96, 96, 96] @ r)"
  by simp

lemma has_fence_skip_space: "is_space w \<Longrightarrow> has_fence (w # s) \<Longrightarrow> has_fence s"
  by (cases s rule: has_fence.cases) (auto simp: is_space_def)

lemma has_fence_skip_spaces: "list_all is_space ws \<Longrightarrow> has_fence (ws @ s) \<Longrightarrow> has_fence s"
  by (induction ws) (auto dest: has_fence_skip_space)

lemma trimEnd_decomp: "\<exists>r. s = trimEnd s @ r"
proof -
  have "rev s = takeWhile is_space (rev s) @ dropWhile is_space (rev s)" by simp
  then have "s = trimEnd s @ rev (takeWhile is_space (rev s))"
    unfolding trimEnd_def by (metis rev_append rev_rev_ident)
  then show ?thesis ..
qed

lemma trimEnd_fence_free:
  assumes "list_all is_space ws" "\<not> has_fence inner"
  shows "\<not> suffix [96, 96, 96] (trimEnd (ws @ inner))"
proof
  assume "suffix [96, 96, 96] (trimEnd (ws @ inner))"
  then obtain u where u: "trimEnd (ws @ inner) = u @ [96, 96, 96]"
    unfolding suffix_def by blast
  obtain r where "ws @ inner = trimEnd (ws @ inner) @ r"
    using trimEnd_decomp by blast
  then have "ws @ inner = u @ ([96, 96, 96] @ r)" by (simp add: u)
  then have "has_fence (ws @ inner)"
    using has_fence_prepend [OF has_fence_here, of u r] by simp
  with assms show False by (blast dest: has_fence_skip_spaces)
qed

lemma roundtrip_label:
  assumes ws: "list_all is_space ws" and nf: "\<not> has_fence inner"
  shows "cleanedQuery (labelled ws inner) = trim inner"
proof -
  let ?L = "lit ''SQL Query:''"
  let ?x = "trimEnd (ws @ inner)"
  have l: "?L \<noteq> []" "\<not> is_space (hd ?L)" "\<not> is_space (last ?L)" "last ?L \<noteq> 96"
    by (simp_all add: lits is_space_def)
  have "trimStart (labelled ws inner) = labelled ws inner"
    using l by (simp add: labelled_def trimStart_def lits)
  then have t: "trim (labelled ws inner) = ?L @ ?x"
    using trimEnd_keep [OF l(1) l(3), of "ws @ inner"] by (simp add: trim_def labelled_def)
  have a: "strip_sql_fence (?L @ ?x) = ?L @ ?x"
    by (simp add: strip_sql_fence_def matches_ci_def lits canonicalize_def)
  have "\<not> suffix [96, 96, 96] (?L @ ?x)"
    using fence_suffix_tail [OF _ l(1) l(4), of ?x] trimEnd_fence_free [OF ws nf] by blast
  then have b: "strip_closing_fence (?L @ ?x) = ?L @ ?x"
    by (simp add: strip_closing_fence_def ends_with_suffix lits(2))
  have "strip_label (?L @ ?x) = trim (ws @ inner)"
    by (simp add: strip_label_open trim_alt)
  also have "\<dots> = trim inner" using ws by (rule trim_ws_left)
  finally show ?thesis
    by (simp add: cleanedQuery_def t a b trim_idem)
qed

lemma label_outside_fence:
  assumes ws: "list_all is_space ws1" "list_all is_space ws2" "list_all is_space ws3"
  shows "cleanedQuery (labelled ws1 (fenced ws2 ws3 inner)) = lit ''```sql'' @ trimEnd (ws2 @ inner)"
proof -
  let ?L = "lit ''SQL Query:''" and ?F = "lit ''```sql''" and ?K = "lit ''```''"
  let ?raw = "labelled ws1 (fenced ws2 ws3 inner)"
  have f: "?F \<noteq> []" "\<not> is_space (hd ?F)" "\<not> is_space (last ?F)"
    by (simp_all add: lits is_space_def)
  have "trim ?raw = ?raw"
    by (rule trim_fixed) (simp_all add: labelled_def fenced_def lits is_space_def)
  moreover have "strip_sql_fence ?raw = ?raw"
    by (simp add: strip_sql_fence_def matches_ci_def labelled_def lits canonicalize_def)
  moreover have "strip_closing_fence ?raw = trimEnd ((?L @ ws1 @ ?F) @ ((ws2 @ inner) @ ws3))"
    using strip_closing_fence_close [of "?L @ ws1 @ ?F @ ws2 @ inner @ ws3"]
    by (simp add: labelled_def fenced_def)
  moreover have "\<dots> = (?L @ ws1 @ ?F) @ trimEnd ((ws2 @ inner) @ ws3)"
    by (rule trimEnd_keep) (simp_all add: lits is_space_def)
  moreover have "trimEnd ((ws2 @ inner) @ ws3) = trimEnd (ws2 @ inner)"
    using ws(3) by (rule trimEnd_ws)
  ultimately have "strip_label (strip_closing_fence (strip_sql_fence (trim ?raw)))
      = trimStart (ws1 @ (?F @ trimEnd (ws2 @ inner)))"
    using strip_label_open [of "ws1 @ ?F @ trimEnd (ws2 @ inner)"] by simp
  also have "\<dots> = trimStart (?F @ trimEnd (ws2 @ inner))"
    using ws(1) by (rule trimStart_ws)
  also have "\<dots> = ?F @ trimEnd (ws2 @ inner)"
    using f by (simp add: trimStart_def lits)
  finally have "cleanedQuery ?raw = trim (?F @ trimEnd (ws2 @ inner))"
    by (simp add: cleanedQuery_def)
  also have "\<dots> = trimStart (?F @ trimEnd (ws2 @ inner))"
    using trimEnd_keep [OF f(1) f(3), of "trimEnd (ws2 @ inner)"]
    by (simp add: trim_alt trimEnd_idem)
  also have "\<dots> = ?F @ trimEnd (ws2 @ inner)"
    using f by (simp add: trimStart_def lits)
  finally show ?thesis .
qed

lemma trim_no_outer_space:
  "trim s = [] \<or> (\<not> is_space (hd (trim s)) \<and> \<not> is_space (last (trim s)))"
proof (cases "trim s = []")
  case True
  then show ?thesis by simp
next
  case False
  then have "dropWhile is_space (trimEnd s) \<noteq> []"
    by (simp add: trim_alt trimStart_def)
  then have "\<not> is_space (hd (trim s))"
    unfolding trim_alt trimStart_def by (rule hd_dropWhile)
  moreover from False have "dropWhile is_space (rev (trimStart s)) \<noteq> []"
    by (simp add: trim_def trimEnd_def)
  then have "\<not> is_space (hd (dropWhile is_space (rev (trimStart s))))"
    by (rule hd_dropWhile)
  then have "\<not> is_space (last (trim s))"
    by (simp add: trim_def trimEnd_def last_rev)
  ultimately show ?thesis by simp
qed

subsection \<open>Unwrapping a model answer\<close>

lemma select1: "lit ''SELECT 1'' = [83, 69, 76, 69, 67, 84, 32, 49]"
  by (simp add: lit_def)

lemma trim_select1: "trim (lit ''SELECT 1'') = lit ''SELECT 1''"
  by (rule trim_fixed) (simp_all add: select1 is_space_def)

text \<open>
  Claim C1, as amended. Let \<open>inner\<close> be a statement without three backticks in a row and
  let \<open>ws1\<close>, \<open>ws2\<close>, \<open>ws3\<close> be runs of white space. Cleaning up the statement wrapped in a
  \<^verbatim>\<open>```sql\<close> fence gives the trimmed statement, provided the trimmed statement does not
  itself begin with the label \<^verbatim>\<open>SQL Query:\<close>; so does cleaning up the statement prefixed
  with the label, and the statement prefixed with the label inside a fence. The result has
  no white space at either end. (A fence inside a label is not unwrapped: lemma
  \<open>label_outside_fence\<close>.)
\<close>

theorem sanitize_roundtrip:
  assumes "list_all is_space ws1" "list_all is_space ws2" "list_all is_space ws3"
    and "\<not> has_fence inner"
  shows "(\<not> matches_ci (lit ''SQL Query:'') (trim inner) \<longrightarrow>
            cleanedQuery (fenced ws1 ws2 inner) = trim inner)
       \<and> cleanedQuery (labelled ws1 inner) = trim inner
       \<and> cleanedQuery (fenced ws1 ws3 (labelled ws2 inner)) = trim inner
       \<and> (trim inner = [] \<or> (\<not> is_space (hd (trim inner)) \<and> \<not> is_space (last (trim inner))))"
  using assms roundtrip_fence [of ws1 ws2 inner] roundtrip_label [of ws1 inner]
    roundtrip_fence_label [of ws1 ws2 ws3 inner] trim_no_outer_space [of inner]
  by blast

text \<open>An instance of C1: the statement \<^verbatim>\<open>SELECT 1\<close> in each of the three wrappings.\<close>

theorem sanitize_roundtrip_witness:
  "cleanedQuery (fenced [10] [10] (lit ''SELECT 1'')) = lit ''SELECT 1''
   \<and> cleanedQuery (labelled [32] (lit ''SELECT 1'')) = lit ''SELECT 1''
   \<and> cleanedQuery (fenced [10] [32] (labelled [32] (lit ''SELECT 1''))) = lit ''SELECT 1''"
proof -
  have ws: "list_all is_space [10]" "list_all is_space [32]"
    by (simp_all add: is_space_def)
  have nf: "\<not> has_fence (lit ''SELECT 1'')"
    by (simp add: select1)
  have nl: "\<not> matches_ci (lit ''SQL Query:'') (trim (lit ''SELECT 1''))"
    unfolding trim_select1 by (simp add: matches_ci_def lits select1 canonicalize_def)
  show ?thesis
    using sanitize_roundtrip [OF ws(1) ws(1) ws(2) nf]
      sanitize_roundtrip [OF ws(2) ws(2) ws(2) nf]
      sanitize_roundtrip [OF ws(1) ws(2) ws(2) nf] nl
    by (simp add: trim_select1)
qed

text \<open>
  C1 as stated fails. With the label outside the fence the opening fence is not at the start
  of the text when the first replacement runs, and it stays in the result; and a fenced
  statement that begins with the label loses the label.
\<close>

theorem sanitize_roundtrip_counterexample:
  "list_all is_space [32] \<and> list_all is_space [10] \<and> \<not> has_fence (lit ''SELECT 1'')
   \<and> cleanedQuery (labelled [32] (fenced [10] [10] (lit ''SELECT 1'')))
       = lit ''```sql'' @ [10] @ lit ''SELECT 1''
   \<and> cleanedQuery (labelled [32] (fenced [10] [10] (lit ''SELECT 1''))) \<noteq> trim (lit ''SELECT 1'')
   \<and> \<not> has_fence (lit ''SQL Query: SELECT 1'')
   \<and> cleanedQuery (fenced [10] [10] (lit ''SQL Query: SELECT 1'')) = lit ''SELECT 1''
   \<and> cleanedQuery (fenced [10] [10] (lit ''SQL Query: SELECT 1'')) \<noteq> trim (lit ''SQL Query: SELECT 1'')"
proof -
  have ws: "list_all is_space [10]" "list_all is_space [32]"
    by (simp_all add: is_space_def)
  have nf: "\<not> has_fence (lit ''SELECT 1'')"
    by (simp add: select1)
  have e: "trimEnd ([10] @ lit ''SELECT 1'') = [10] @ lit ''SELECT 1''"
    by (simp add: trimEnd_def select1 is_space_def)
  have a: "cleanedQuery (labelled [32] (fenced [10] [10] (lit ''SELECT 1'')))
       = lit ''```sql'' @ [10] @ lit ''SELECT 1''"
    using label_outside_fence [OF ws(2) ws(1) ws(1), of "lit ''SELECT 1''"] by (simp only: e)
  have l: "lit ''SQL Query: SELECT 1'' = labelled [32] (lit ''SELECT 1'')"
    by (simp add: labelled_def lit_def)
  have l': "lit ''SQL Query: SELECT 1''
      = [83, 81, 76, 32, 81, 117, 101, 114, 121, 58, 32, 83, 69, 76, 69, 67, 84, 32, 49]"
    by (simp add: lit_def)
  have nf': "\<not> has_fence (lit ''SQL Query: SELECT 1'')"
    by (simp add: l')
  have b: "cleanedQuery (fenced [10] [10] (lit ''SQL Query: SELECT 1'')) = lit ''SELECT 1''"
    using roundtrip_fence_label [OF ws(1) ws(2) ws(1), of "lit ''SELECT 1''"]
    by (simp only: l trim_select1)
  have t: "trim (lit ''SQL Query: SELECT 1'') = lit ''SQL Query: SELECT 1''"
    by (rule trim_fixed) (simp_all add: l' is_space_def)
  show ?thesis
    using ws nf nf' by (simp only: a b t trim_select1) (simp add: lits select1 l')
qed

section \<open>Properties of the pipeline\<close>

subsection \<open>The stages\<close>

lemma length_object_entries: "length (object_entries obj) = length obj"
  by (simp add: object_entries_def sum_length_filter_compl)

lemma object_keys_empty: "object_keys obj = [] \<longleftrightarrow> obj = []"
  using length_object_entries [of obj] by (auto simp: object_keys_def)

lemma object_keys_Nil: "object_keys [] = []"
  by (simp add: object_keys_def object_entries_def)

lemma getDatabaseSchema_returns:
  "\<exists>schema. getDatabaseSchema w = (Inr schema, [PoolQuerySchema])"
  by (simp add: getDatabaseSchema_def split: sum.split)

lemma getDatabaseSchema_query_failure:
  "schema_rows w = Inl e \<Longrightarrow> getDatabaseSchema w = (Inr [], [PoolQuerySchema])"
  by (simp add: getDatabaseSchema_def)

lemma executeSQLQuery_returns:
  "\<exists>sqlResult. executeSQLQuery w q = (Inr sqlResult, [PoolQuery q])"
  by (simp add: executeSQLQuery_def split: sum.split)

lemma narration_prompt_rows:
  "\<exists>p. narration_prompt q (Success (Some d) c ns) msg = Inr p"
  by (simp add: narration_prompt_def)

lemma narration_prompt_failure:
  "\<exists>p. narration_prompt q (Failure e a) msg = Inr p"
  by (simp add: narration_prompt_def)

lemma narration_prompt_no_rows:
  "narration_prompt q (Success None c ns) msg
     = Inl (JsError (lit ''Cannot read properties of undefined (reading 'length')''))"
  by (simp add: narration_prompt_def)

lemma generateNaturalResponse_returns:
  "narration_prompt q r msg = Inr p \<Longrightarrow>
     \<exists>n. generateNaturalResponse w q r msg = (Inr n, [GenerateContent p])"
  by (simp add: generateNaturalResponse_def split: sum.split)

lemma generateNaturalResponse_fallback:
  "narration_prompt q r msg = Inr p \<Longrightarrow> generateContent w p = Inl e \<Longrightarrow>
     generateNaturalResponse w q r msg = (Inr fallback_response, [GenerateContent p])"
  by (simp add: generateNaturalResponse_def)

lemma generateNaturalResponse_throws:
  "narration_prompt q r msg = Inl e \<Longrightarrow> generateNaturalResponse w q r msg = (Inl e, [])"
  by (simp add: generateNaturalResponse_def)

lemma chat_rejects:
  "chat w (Body None) = ((400, ErrorBody (lit ''Message is required'')), [])"
  "chat w (Body (Some [])) = ((400, ErrorBody (lit ''Message is required'')), [])"
  by (simp_all add: chat_def)

lemma chat_no_body: "fst (fst (chat w NoBody)) = 500"
  by (simp add: chat_def)

lemma chat_unavailable:
  assumes "msg \<noteq> []" "fst (getDatabaseSchema w) = Inr []"
  shows "chat w (Body (Some msg))
    = ((200, ResponseType unavailable_response (lit ''error'')), [PoolQuerySchema])"
proof -
  from assms(2) getDatabaseSchema_returns [of w]
  have "getDatabaseSchema w = (Inr [], [PoolQuerySchema])" by auto
  then show ?thesis using assms(1) by (simp add: chat_def await_def object_keys_Nil)
qed

lemma chat_synthesis_fails:
  assumes "msg \<noteq> []" "fst (getDatabaseSchema w) = Inr schema" "schema \<noteq> []"
    and "generateContent w (SqlPrompt (schemaDescription schema) msg) = Inl e"
  shows "chat w (Body (Some msg)) =
    ((500, ResponseTypeError apology_response (lit ''error'') (lit ''Failed to generate SQL query'')),
     [PoolQuerySchema, GenerateContent (SqlPrompt (schemaDescription schema) msg)])"
proof -
  from assms(2) getDatabaseSchema_returns [of w]
  have "getDatabaseSchema w = (Inr schema, [PoolQuerySchema])" by auto
  moreover have "generateSQLQuery w msg schema =
      (Inl (JsError (lit ''Failed to generate SQL query'')),
       [GenerateContent (SqlPrompt (schemaDescription schema) msg)])"
    using assms(4) by (simp add: generateSQLQuery_def Let_def)
  ultimately show ?thesis
    using assms(1,3) by (simp add: chat_def await_def object_keys_empty)
qed

text \<open>A turn that reaches the narrator ends with what the narrator returns or throws.\<close>

lemma chat_narrated:
  assumes "msg \<noteq> []" "fst (getDatabaseSchema w) = Inr schema" "schema \<noteq> []"
    and "fst (generateSQLQuery w msg schema) = Inr q"
    and "fst (executeSQLQuery w q) = Inr r"
    and "generateNaturalResponse w q r msg = (v, l)"
  shows "chat w (Body (Some msg)) =
    ((case v of
        Inr n \<Rightarrow> (200, response n q r)
      | Inl e \<Rightarrow> (500, ResponseTypeError apology_response (lit ''error'') (error_message e))),
     [PoolQuerySchema, GenerateContent (SqlPrompt (schemaDescription schema) msg), PoolQuery q] @ l)"
proof -
  from assms(2) getDatabaseSchema_returns [of w]
  have "getDatabaseSchema w = (Inr schema, [PoolQuerySchema])" by auto
  moreover have "generateSQLQuery w msg schema =
      (Inr q, [GenerateContent (SqlPrompt (schemaDescription schema) msg)])"
    using assms(4) by (auto simp: generateSQLQuery_def Let_def split: sum.splits)
  moreover have "executeSQLQuery w q = (Inr r, [PoolQuery q])"
    using assms(5) executeSQLQuery_returns [of w q] by auto
  ultimately show ?thesis
    using assms(1,3,6) by (cases v) (simp_all add: chat_def await_def object_keys_empty)
qed

lemma chat_completes:
  assumes "msg \<noteq> []" "fst (getDatabaseSchema w) = Inr schema" "schema \<noteq> []"
    and "fst (generateSQLQuery w msg schema) = Inr q"
    and "fst (executeSQLQuery w q) = Inr r"
    and "fst (generateNaturalResponse w q r msg) = Inr n"
  shows "fst (chat w (Body (Some msg))) = (200, response n q r)"
proof -
  obtain l where "generateNaturalResponse w q r msg = (Inr n, l)"
    using assms(6) by (cases "generateNaturalResponse w q r msg") simp
  from chat_narrated [OF assms(1-5) this] show ?thesis by simp
qed

lemma response_shape:
  assumes "narration_prompt q r msg = Inr p"
  shows "\<exists>t d. response n q r = ResponseTypeData n t d
      \<and> (t = lit ''success'' \<or> t = lit ''error'') \<and> sqlQuery d = q"
proof (cases r)
  case (Success data c ns)
  with assms obtain d where "data = Some d"
    by (cases data) (simp_all add: narration_prompt_def)
  with Success show ?thesis by (simp add: response_def)
next
  case (Failure e a)
  then show ?thesis by (simp add: response_def)
qed

subsection \<open>The example worlds\<close>

lemma group_demo_rows: "group_rows [] demo_rows = Inr demo_schema"
  by (simp add: demo_rows_def demo_schema_def group_row_def prototype_keys_def lit_def)

lemma demo_getDatabaseSchema:
  "getDatabaseSchema (demo_world a b c) = (Inr demo_schema, [PoolQuerySchema])"
  by (simp add: getDatabaseSchema_def demo_world_def group_demo_rows)

lemma demo_schema_nonempty: "demo_schema \<noteq> []"
  by (simp add: demo_schema_def)

lemma demo_generateSQLQuery:
  "fst (generateSQLQuery (demo_world (Inr t) b c) msg schema) = Inr (cleanedQuery t)"
  "fst (generateSQLQuery (demo_world (Inl e) b c) msg schema)
     = Inl (JsError (lit ''Failed to generate SQL query''))"
  by (simp_all add: generateSQLQuery_def demo_world_def Let_def)

lemma demo_generateContent:
  "generateContent (demo_world a b c) (SqlPrompt d n) = a"
  "generateContent (demo_world a b c) (ResultPrompt n q k r) = c"
  "generateContent (demo_world a b c) (NoResultPrompt n q e) = c"
  by (simp_all add: demo_world_def)

lemma demo_run_query: "run_query (demo_world a b c) q = b"
  by (simp add: demo_world_def)

lemma offline_getDatabaseSchema:
  "getDatabaseSchema offline_world = (Inr [], [PoolQuerySchema])"
  by (simp add: getDatabaseSchema_def offline_world_def)

lemma hi_nonempty: "lit ''hi'' \<noteq> []"
  by (simp add: lit_def)

subsection \<open>The chat endpoint\<close>

text \<open>
  Claim C2, as amended. A request whose question is the empty string is answered with status
  400 and the body \<^verbatim>\<open>{error: 'Message is required'}\<close>, and no call to the database or to
  the model is made. A question that is not empty, one of white space included, passes the
  check: the status is not 400 and schema introspection is the first call made.
\<close>

theorem empty_message_rejected:
  "chat w (Body (Some [])) = ((400, ErrorBody (lit ''Message is required'')), [])
   \<and> (\<forall>msg. msg \<noteq> [] \<longrightarrow>
         fst (fst (chat w (Body (Some msg)))) \<noteq> 400
         \<and> snd (chat w (Body (Some msg))) \<noteq> []
         \<and> hd (snd (chat w (Body (Some msg)))) = PoolQuerySchema)"
proof (intro conjI allI impI)
  show "chat w (Body (Some [])) = ((400, ErrorBody (lit ''Message is required'')), [])"
    by (rule chat_rejects)
next
  fix msg :: jsstring
  assume m: "msg \<noteq> []"
  obtain schema where s: "fst (getDatabaseSchema w) = Inr schema"
    using getDatabaseSchema_returns [of w] by auto
  have "fst (fst (chat w (Body (Some msg)))) \<noteq> 400
      \<and> snd (chat w (Body (Some msg))) \<noteq> []
      \<and> hd (snd (chat w (Body (Some msg)))) = PoolQuerySchema"
  proof (cases "schema = []")
    case True
    with s m show ?thesis by (simp add: chat_unavailable)
  next
    case False
    show ?thesis
    proof (cases "generateContent w (SqlPrompt (schemaDescription schema) msg)")
      case (Inl e)
      from chat_synthesis_fails [OF m s False Inl] show ?thesis by simp
    next
      case (Inr answer)
      then have g: "fst (generateSQLQuery w msg schema) = Inr (cleanedQuery answer)"
        by (simp add: generateSQLQuery_def Let_def)
      obtain r where x: "fst (executeSQLQuery w (cleanedQuery answer)) = Inr r"
        using executeSQLQuery_returns [of w "cleanedQuery answer"] by auto
      obtain v l where n: "generateNaturalResponse w (cleanedQuery answer) r msg = (v, l)"
        by (cases "generateNaturalResponse w (cleanedQuery answer) r msg")
      from chat_narrated [OF m s False g x n] show ?thesis
        by (cases v) simp_all
    qed
  qed
  then show "fst (fst (chat w (Body (Some msg)))) \<noteq> 400"
    and "snd (chat w (Body (Some msg))) \<noteq> []"
    and "hd (snd (chat w (Body (Some msg)))) = PoolQuerySchema" by simp_all
qed

text \<open>Instances of C2: the empty question, and a question that passes.\<close>

theorem empty_message_rejected_witness:
  "chat offline_world (Body (Some [])) = ((400, ErrorBody (lit ''Message is required'')), [])
   \<and> fst (fst (chat offline_world (Body (Some (lit ''hi''))))) \<noteq> 400
   \<and> snd (chat offline_world (Body (Some (lit ''hi'')))) \<noteq> []"
  using empty_message_rejected [of offline_world] hi_nonempty by simp

text \<open>
  C2 as stated fails for a question of white space only: a single space is truthy, the
  handler goes on to introspection, and the status is 200.
\<close>

theorem empty_message_rejected_counterexample:
  "list_all is_space [32] \<and>
   chat offline_world (Body (Some [32]))
     = ((200, ResponseType unavailable_response (lit ''error'')), [PoolQuerySchema])"
  by (simp add: is_space_def chat_unavailable offline_getDatabaseSchema)

text \<open>
  Claim C3, as amended. A 200 response of the chat endpoint has one of two shapes. When
  introspection gave a non-empty schema it is the envelope \<^verbatim>\<open>{response, type, data}\<close>
  with \<^verbatim>\<open>type\<close> either \<^verbatim>\<open>success\<close> or \<^verbatim>\<open>error\<close> and \<^verbatim>\<open>data\<close> holding
  \<^verbatim>\<open>sqlQuery\<close>, \<^verbatim>\<open>resultCount\<close>, \<^verbatim>\<open>hasData\<close>, \<^verbatim>\<open>preview\<close> and \<^verbatim>\<open>fields\<close>. When
  the schema was empty it is \<^verbatim>\<open>{response, type: 'error'}\<close> with the fixed
  database-unavailable text and no \<^verbatim>\<open>data\<close>.
\<close>

theorem ok_response_shape:
  assumes "fst (fst (chat w body)) = 200"
  shows "body_response (snd (fst (chat w body))) \<noteq> None
     \<and> (body_type (snd (fst (chat w body))) = Some (lit ''success'')
          \<or> body_type (snd (fst (chat w body))) = Some (lit ''error''))
     \<and> (if fst (getDatabaseSchema w) = Inr []
         then snd (fst (chat w body)) = ResponseType unavailable_response (lit ''error'')
         else body_data (snd (fst (chat w body))) \<noteq> None)"
proof -
  from assms obtain msg where m: "body = Body (Some msg)" "msg \<noteq> []"
    by (cases body) (auto simp: chat_def split: option.splits if_splits)
  obtain schema where s: "fst (getDatabaseSchema w) = Inr schema"
    using getDatabaseSchema_returns [of w] by auto
  show ?thesis
  proof (cases "schema = []")
    case True
    with s m show ?thesis by (simp add: chat_unavailable)
  next
    case False
    show ?thesis
    proof (cases "generateContent w (SqlPrompt (schemaDescription schema) msg)")
      case (Inl e)
      from chat_synthesis_fails [OF m(2) s False Inl] assms m(1) show ?thesis by simp
    next
      case (Inr answer)
      let ?q = "cleanedQuery answer"
      from Inr have g: "fst (generateSQLQuery w msg schema) = Inr ?q"
        by (simp add: generateSQLQuery_def Let_def)
      obtain r where x: "fst (executeSQLQuery w ?q) = Inr r"
        using executeSQLQuery_returns [of w ?q] by auto
      show ?thesis
      proof (cases "narration_prompt ?q r msg")
        case (Inl e)
        from chat_narrated [OF m(2) s False g x generateNaturalResponse_throws [OF Inl]]
          assms m(1) show ?thesis by simp
      next
        case p: (Inr p)
        obtain n where "generateNaturalResponse w ?q r msg = (Inr n, [GenerateContent p])"
          using generateNaturalResponse_returns [OF p] by blast
        from chat_narrated [OF m(2) s False g x this] m(1)
        have "snd (fst (chat w body)) = response n ?q r" by simp
        with response_shape [OF p, of n] s False show ?thesis by auto
      qed
    qed
  qed
qed

text \<open>An instance of C3: the 200 response of a turn whose introspection failed.\<close>

theorem ok_response_shape_witness:
  "fst (fst (chat offline_world (Body (Some (lit ''hi''))))) = 200
   \<and> body_response (snd (fst (chat offline_world (Body (Some (lit ''hi'')))))) \<noteq> None
   \<and> body_type (snd (fst (chat offline_world (Body (Some (lit ''hi''))))))
       = Some (lit ''error'')
   \<and> snd (fst (chat offline_world (Body (Some (lit ''hi'')))))
       = ResponseType unavailable_response (lit ''error'')"
proof -
  have h: "fst (fst (chat offline_world (Body (Some (lit ''hi''))))) = 200"
    by (simp add: chat_unavailable offline_getDatabaseSchema hi_nonempty)
  have "fst (getDatabaseSchema offline_world) = Inr []"
    by (simp add: offline_getDatabaseSchema)
  with ok_response_shape [OF h] h show ?thesis by simp
qed

text \<open>
  C3 as stated fails on the early path: with the database down the status is 200 and the
  body has no \<^verbatim>\<open>data\<close> property.
\<close>

theorem ok_response_shape_counterexample:
  "chat offline_world (Body (Some (lit ''hi'')))
     = ((200, ResponseType unavailable_response (lit ''error'')), [PoolQuerySchema])
   \<and> body_data (snd (fst (chat offline_world (Body (Some (lit ''hi'')))))) = None"
  by (simp add: chat_unavailable offline_getDatabaseSchema hi_nonempty)

text \<open>
  Claim C4. When introspection yields the empty mapping, a request with a message gets the
  200 response \<^verbatim>\<open>{response, type: 'error'}\<close> with the fixed database-unavailable text, and
  the introspection query is the only call made: the model and the executor are not called.
  A failure of the introspection query is turned into the empty mapping, not thrown.
\<close>

theorem empty_schema_short_circuits:
  "(msg \<noteq> [] \<and> fst (getDatabaseSchema w) = Inr [] \<longrightarrow>
      chat w (Body (Some msg))
        = ((200, ResponseType unavailable_response (lit ''error'')), [PoolQuerySchema]))
   \<and> (schema_rows w = Inl e \<longrightarrow> getDatabaseSchema w = (Inr [], [PoolQuerySchema]))"
proof (intro conjI impI)
  assume "msg \<noteq> [] \<and> fst (getDatabaseSchema w) = Inr []"
  then show "chat w (Body (Some msg))
      = ((200, ResponseType unavailable_response (lit ''error'')), [PoolQuerySchema])"
    by (simp add: chat_unavailable)
next
  assume "schema_rows w = Inl e"
  then show "getDatabaseSchema w = (Inr [], [PoolQuerySchema])"
    by (rule getDatabaseSchema_query_failure)
qed

text \<open>An instance of C4: the database refuses the introspection query.\<close>

theorem empty_schema_short_circuits_witness:
  "chat offline_world (Body (Some (lit ''hi'')))
     = ((200, ResponseType unavailable_response (lit ''error'')), [PoolQuerySchema])
   \<and> getDatabaseSchema offline_world = (Inr [], [PoolQuerySchema])"
proof -
  have "schema_rows offline_world = Inl (JsError (lit ''connect ECONNREFUSED''))"
    by (simp add: offline_world_def)
  moreover have "fst (getDatabaseSchema offline_world) = Inr []"
    by (simp add: offline_getDatabaseSchema)
  ultimately show ?thesis
    using empty_schema_short_circuits
      [of "lit ''hi''" offline_world "JsError (lit ''connect ECONNREFUSED'')"] hi_nonempty
    by simp
qed

text \<open>
  Claim C5. When the database rejects the query, \<^verbatim>\<open>executeSQLQuery\<close> returns, without
  throwing, the failure object with the message of the database error and the attempted
  query; and a turn that reaches execution with that query is answered with status 200,
  \<^verbatim>\<open>type\<close> \<^verbatim>\<open>error\<close>, \<^verbatim>\<open>resultCount\<close> 0 and \<^verbatim>\<open>hasData\<close> false.
\<close>

theorem rejected_execution:
  assumes "run_query (w :: 'row world) q = Inl e"
  shows "executeSQLQuery w q = (Inr (Failure (error_message e) q), [PoolQuery q])
     \<and> (msg \<noteq> [] \<and> fst (getDatabaseSchema w) = Inr schema \<and> schema \<noteq> []
          \<and> fst (generateSQLQuery w msg schema) = Inr q \<longrightarrow>
        (\<exists>n. fst (chat w (Body (Some msg)))
           = (200, ResponseTypeData n (lit ''error'')
                \<lparr>sqlQuery = q, resultCount = 0, hasData = False, preview = None, fields' = []\<rparr>)))"
proof (intro conjI impI)
  show x: "executeSQLQuery w q = (Inr (Failure (error_message e) q), [PoolQuery q])"
    using assms by (simp add: executeSQLQuery_def)
  assume t: "msg \<noteq> [] \<and> fst (getDatabaseSchema w) = Inr schema \<and> schema \<noteq> []
          \<and> fst (generateSQLQuery w msg schema) = Inr q"
  let ?r = "Failure (error_message e) q :: 'row sql_result"
  obtain p where p: "narration_prompt q ?r msg = Inr p"
    using narration_prompt_failure by blast
  obtain n where "fst (generateNaturalResponse w q ?r msg) = Inr n"
    using generateNaturalResponse_returns [OF p, of w] by auto
  with t x
  have "fst (chat w (Body (Some msg))) = (200, response n q (Failure (error_message e) q))"
    by (simp add: chat_completes)
  then show "\<exists>n. fst (chat w (Body (Some msg)))
           = (200, ResponseTypeData n (lit ''error'')
                \<lparr>sqlQuery = q, resultCount = 0, hasData = False, preview = None, fields' = []\<rparr>)"
    by (simp add: response_def)
qed

text \<open>An instance of C5: the generated query names a table that does not exist.\<close>

theorem rejected_execution_witness:
  "executeSQLQuery (demo_world (Inr (lit ''SELECT * FROM missing''))
        (Inl (JsError (lit ''relation does not exist''))) (Inr (lit ''Sorry'')))
      (cleanedQuery (lit ''SELECT * FROM missing''))
     = (Inr (Failure (lit ''relation does not exist'') (cleanedQuery (lit ''SELECT * FROM missing''))),
        [PoolQuery (cleanedQuery (lit ''SELECT * FROM missing''))])
   \<and> (\<exists>n. fst (chat (demo_world (Inr (lit ''SELECT * FROM missing''))
                 (Inl (JsError (lit ''relation does not exist''))) (Inr (lit ''Sorry'')))
               (Body (Some (lit ''hi''))))
        = (200, ResponseTypeData n (lit ''error'')
             \<lparr>sqlQuery = cleanedQuery (lit ''SELECT * FROM missing''), resultCount = 0,
              hasData = False, preview = None, fields' = []\<rparr>))"
proof -
  let ?w = "demo_world (Inr (lit ''SELECT * FROM missing''))
        (Inl (JsError (lit ''relation does not exist''))) (Inr (lit ''Sorry''))"
  have r: "run_query ?w (cleanedQuery (lit ''SELECT * FROM missing''))
      = Inl (JsError (lit ''relation does not exist''))"
    by (rule demo_run_query)
  have t: "lit ''hi'' \<noteq> [] \<and> fst (getDatabaseSchema ?w) = Inr demo_schema \<and> demo_schema \<noteq> []
      \<and> fst (generateSQLQuery ?w (lit ''hi'') demo_schema)
          = Inr (cleanedQuery (lit ''SELECT * FROM missing''))"
    by (simp add: demo_getDatabaseSchema demo_schema_nonempty demo_generateSQLQuery hi_nonempty)
  show ?thesis
    using rejected_execution [OF r, of "lit ''hi''" demo_schema] t by simp
qed

text \<open>
  Claim C6, as amended. After a successful execution \<^verbatim>\<open>preview\<close> is the first ten rows
  of the result: a prefix of the rows, of length at most 10. Its length is at most
  \<^verbatim>\<open>resultCount\<close> whenever the row count the database reports is at least the number of
  rows it returned.
\<close>

theorem preview_bounded:
  assumes "msg \<noteq> []" "fst (getDatabaseSchema w) = Inr schema" "schema \<noteq> []"
    and "fst (generateSQLQuery w msg schema) = Inr q"
    and "run_query w q = Inr result" "rows result = Some rs"
  shows "\<exists>n d. fst (chat w (Body (Some msg))) = (200, ResponseTypeData n (lit ''success'') d)
      \<and> preview d = Some (take 10 rs)
      \<and> prefix (take 10 rs) rs
      \<and> length (take 10 rs) \<le> 10
      \<and> (\<forall>k. rowCount result = Some k \<and> int (length rs) \<le> k \<longrightarrow>
            int (length (take 10 rs)) \<le> resultCount d)"
proof -
  let ?r = "Success (Some rs) (rowCount result)
        (case result_fields result of None \<Rightarrow> [] | Some names \<Rightarrow> names)"
  have x: "fst (executeSQLQuery w q) = Inr ?r"
    using assms(5,6) by (simp add: executeSQLQuery_def)
  obtain p where p: "narration_prompt q ?r msg = Inr p"
    using narration_prompt_rows by blast
  obtain n where "fst (generateNaturalResponse w q ?r msg) = Inr n"
    using generateNaturalResponse_returns [OF p, of w] by auto
  with assms x have "fst (chat w (Body (Some msg))) = (200, response n q ?r)"
    by (simp add: chat_completes)
  then show ?thesis
    by (auto simp: response_def take_is_prefix)
qed

text \<open>An instance of C6: three rows, reported as three.\<close>

theorem preview_bounded_witness:
  "\<exists>n d. fst (chat (demo_world (Inr (lit ''SELECT id FROM employees''))
                 (Inr \<lparr>rows = Some [1, 2, 3], rowCount = Some 3,
                       result_fields = Some [lit ''id'']\<rparr>)
                 (Inr (lit ''Three employees.'')))
               (Body (Some (lit ''hi''))))
        = (200, ResponseTypeData n (lit ''success'') d)
      \<and> preview d = Some [1, 2, 3] \<and> 3 \<le> resultCount d"
proof -
  let ?res = "\<lparr>rows = Some [1, 2, 3::nat], rowCount = Some 3, result_fields = Some [lit ''id'']\<rparr>"
  let ?w = "demo_world (Inr (lit ''SELECT id FROM employees'')) (Inr ?res)
      (Inr (lit ''Three employees.''))"
  have s: "fst (getDatabaseSchema ?w) = Inr demo_schema"
    by (simp add: demo_getDatabaseSchema)
  have g: "fst (generateSQLQuery ?w (lit ''hi'') demo_schema)
      = Inr (cleanedQuery (lit ''SELECT id FROM employees''))"
    by (rule demo_generateSQLQuery)
  have r: "run_query ?w (cleanedQuery (lit ''SELECT id FROM employees'')) = Inr ?res"
    by (rule demo_run_query)
  have d: "rows ?res = Some [1, 2, 3]" by simp
  show ?thesis
    using preview_bounded [OF hi_nonempty s demo_schema_nonempty g r d] by fastforce
qed

text \<open>
  C6 as stated fails when the database returns rows without a count, as it does for
  \<^verbatim>\<open>EXPLAIN\<close>: \<^verbatim>\<open>resultCount\<close> is 0 and the preview has one row.
\<close>

theorem preview_bounded_counterexample:
  "fst (chat (demo_world (Inr (lit ''EXPLAIN SELECT 1''))
               (Inr \<lparr>rows = Some [7], rowCount = None,
                     result_fields = Some [lit ''QUERY PLAN'']\<rparr>)
               (Inr (lit ''A plan.'')))
             (Body (Some (lit ''hi''))))
     = (200, ResponseTypeData (trim (lit ''A plan.'')) (lit ''success'')
          \<lparr>sqlQuery = cleanedQuery (lit ''EXPLAIN SELECT 1''), resultCount = 0, hasData = True,
           preview = Some [7], fields' = [lit ''QUERY PLAN'']\<rparr>)
   \<and> \<not> int (length [7::nat]) \<le> 0"
proof -
  let ?res = "\<lparr>rows = Some [7::nat], rowCount = None,
      result_fields = Some [lit ''QUERY PLAN'']\<rparr>"
  let ?w = "demo_world (Inr (lit ''EXPLAIN SELECT 1'')) (Inr ?res) (Inr (lit ''A plan.''))"
  let ?q = "cleanedQuery (lit ''EXPLAIN SELECT 1'')"
  let ?r = "Success (Some [7::nat]) None [lit ''QUERY PLAN'']"
  have s: "fst (getDatabaseSchema ?w) = Inr demo_schema"
    by (simp add: demo_getDatabaseSchema)
  have g: "fst (generateSQLQuery ?w (lit ''hi'') demo_schema) = Inr ?q"
    by (rule demo_generateSQLQuery)
  have x: "fst (executeSQLQuery ?w ?q) = Inr ?r"
    by (simp add: executeSQLQuery_def demo_run_query)
  have n: "fst (generateNaturalResponse ?w ?q ?r (lit ''hi'')) = Inr (trim (lit ''A plan.''))"
    by (simp add: generateNaturalResponse_def narration_prompt_def demo_generateContent)
  show ?thesis
    using chat_completes [OF hi_nonempty s demo_schema_nonempty g x n] by (simp add: response_def)
qed

text \<open>
  Claim C7, as amended. When the model call of the synthesis throws, \<^verbatim>\<open>generateSQLQuery\<close>
  throws a new error with the fixed message \<^verbatim>\<open>Failed to generate SQL query\<close>; the handler
  catches it and answers with status 500, \<^verbatim>\<open>type\<close> \<^verbatim>\<open>error\<close>, the fixed apology and that
  fixed message as \<^verbatim>\<open>error\<close>. Neither the executor nor the narrator is called.
\<close>

theorem synthesis_failure:
  assumes "msg \<noteq> []" "fst (getDatabaseSchema w) = Inr schema" "schema \<noteq> []"
    and "generateContent w (SqlPrompt (schemaDescription schema) msg) = Inl e"
  shows "fst (generateSQLQuery w msg schema) = Inl (JsError (lit ''Failed to generate SQL query''))
     \<and> chat w (Body (Some msg)) =
         ((500, ResponseTypeError apology_response (lit ''error'')
                  (lit ''Failed to generate SQL query'')),
          [PoolQuerySchema, GenerateContent (SqlPrompt (schemaDescription schema) msg)])"
  using assms by (simp add: chat_synthesis_fails generateSQLQuery_def Let_def)

text \<open>An instance of C7: the model refuses the SQL prompt.\<close>

theorem synthesis_failure_witness:
  "chat (demo_world (Inl (JsError (lit ''429 quota exceeded''))) (Inl (JsError [])) (Inl (JsError [])))
        (Body (Some (lit ''hi'')))
     = ((500, ResponseTypeError apology_response (lit ''error'')
                (lit ''Failed to generate SQL query'')),
        [PoolQuerySchema, GenerateContent (SqlPrompt (schemaDescription demo_schema) (lit ''hi''))])"
proof -
  let ?w = "demo_world (Inl (JsError (lit ''429 quota exceeded''))) (Inl (JsError [])) (Inl (JsError []))"
  have s: "fst (getDatabaseSchema ?w) = Inr demo_schema"
    by (simp add: demo_getDatabaseSchema)
  have g: "generateContent ?w (SqlPrompt (schemaDescription demo_schema) (lit ''hi''))
      = Inl (JsError (lit ''429 quota exceeded''))"
    by (rule demo_generateContent)
  show ?thesis
    using synthesis_failure [OF hi_nonempty s demo_schema_nonempty g] by simp
qed

text \<open>
  C7 as stated fails in its last part: the message attached to the 500 response is not the
  message of the error the model call threw.
\<close>

theorem synthesis_failure_counterexample:
  "generateContent
       (demo_world (Inl (JsError (lit ''429 quota exceeded''))) (Inl (JsError [])) (Inl (JsError [])))
       (SqlPrompt (schemaDescription demo_schema) (lit ''hi''))
     = Inl (JsError (lit ''429 quota exceeded''))
   \<and> body_error (snd (fst (chat
        (demo_world (Inl (JsError (lit ''429 quota exceeded''))) (Inl (JsError [])) (Inl (JsError [])))
        (Body (Some (lit ''hi''))))))
     = Some (lit ''Failed to generate SQL query'')
   \<and> lit ''Failed to generate SQL query'' \<noteq> lit ''429 quota exceeded''"
proof -
  let ?w = "demo_world (Inl (JsError (lit ''429 quota exceeded''))) (Inl (JsError [])) (Inl (JsError []))"
  have s: "fst (getDatabaseSchema ?w) = Inr demo_schema"
    by (simp add: demo_getDatabaseSchema)
  have g: "generateContent ?w (SqlPrompt (schemaDescription demo_schema) (lit ''hi''))
      = Inl (JsError (lit ''429 quota exceeded''))"
    by (rule demo_generateContent)
  have "lit ''Failed to generate SQL query'' \<noteq> lit ''429 quota exceeded''"
    by (simp add: lit_def)
  then show ?thesis
    using chat_synthesis_fails [OF hi_nonempty s demo_schema_nonempty g] g by simp
qed

text \<open>
  When the model call of the narration throws, the narrator returns the fixed fallback
  sentence, and the turn is answered with status 200 and the data of the outcome.
\<close>

lemma narration_fallback:
  assumes "narration_prompt q r msg = Inr p" "generateContent w p = Inl e"
  shows "generateNaturalResponse w q r msg = (Inr fallback_response, [GenerateContent p])"
    and "msg \<noteq> [] \<Longrightarrow> fst (getDatabaseSchema w) = Inr schema \<Longrightarrow> schema \<noteq> [] \<Longrightarrow>
         fst (generateSQLQuery w msg schema) = Inr q \<Longrightarrow> fst (executeSQLQuery w q) = Inr r \<Longrightarrow>
         fst (chat w (Body (Some msg))) = (200, response fallback_response q r)"
  using assms by (simp_all add: generateNaturalResponse_fallback chat_completes)

text \<open>
  Claim C8 says that the narrator never fails outward, whatever the execution outcome. The
  code breaks it for a success without \<^verbatim>\<open>data\<close>, the outcome of a query text of several
  statements, for which \<^verbatim>\<open>pool.query\<close> resolves to an array of results. The narrator reads
  \<^verbatim>\<open>sqlResult.data.length\<close> before its \<^verbatim>\<open>try\<close> and throws a TypeError without calling
  the model; a turn that reaches narration with such a result is answered with status 500,
  the apology and the message of the TypeError.
\<close>

theorem narrator_throws_without_rows:
  "generateNaturalResponse w q (Success None count names) msg
     = (Inl (JsError (lit ''Cannot read properties of undefined (reading 'length')'')), [])
   \<and> (msg \<noteq> [] \<and> fst (getDatabaseSchema w) = Inr schema \<and> schema \<noteq> []
        \<and> fst (generateSQLQuery w msg schema) = Inr q
        \<and> run_query w q = Inr result \<and> rows result = None \<longrightarrow>
      chat w (Body (Some msg))
        = ((500, ResponseTypeError apology_response (lit ''error'')
                   (lit ''Cannot read properties of undefined (reading 'length')'')),
           [PoolQuerySchema, GenerateContent (SqlPrompt (schemaDescription schema) msg),
            PoolQuery q]))"
proof (intro conjI impI)
  show "generateNaturalResponse w q (Success None count names) msg
     = (Inl (JsError (lit ''Cannot read properties of undefined (reading 'length')'')), [])"
    by (simp add: generateNaturalResponse_throws narration_prompt_no_rows)
next
  assume t: "msg \<noteq> [] \<and> fst (getDatabaseSchema w) = Inr schema \<and> schema \<noteq> []
        \<and> fst (generateSQLQuery w msg schema) = Inr q
        \<and> run_query w q = Inr result \<and> rows result = None"
  let ?r = "Success None (rowCount result)
        (case result_fields result of None \<Rightarrow> [] | Some names \<Rightarrow> names)"
  from t have x: "fst (executeSQLQuery w q) = Inr ?r"
    by (simp add: executeSQLQuery_def)
  have n: "generateNaturalResponse w q ?r msg
      = (Inl (JsError (lit ''Cannot read properties of undefined (reading 'length')'')), [])"
    by (simp add: generateNaturalResponse_throws narration_prompt_no_rows)
  from t chat_narrated [OF _ _ _ _ x n, of schema]
  show "chat w (Body (Some msg))
        = ((500, ResponseTypeError apology_response (lit ''error'')
                   (lit ''Cannot read properties of undefined (reading 'length')'')),
           [PoolQuerySchema, GenerateContent (SqlPrompt (schemaDescription schema) msg),
            PoolQuery q])"
    by simp
qed

text \<open>
  An instance of C8: the generated text holds two statements and the database answers with
  an array of results.
\<close>

theorem narrator_throws_without_rows_witness:
  "chat (demo_world (Inr (lit ''SELECT 1; SELECT 2''))
           (Inr \<lparr>rows = None, rowCount = None, result_fields = None\<rparr>)
           (Inr (lit ''Two results.'')))
        (Body (Some (lit ''hi'')))
     = ((500, ResponseTypeError apology_response (lit ''error'')
                (lit ''Cannot read properties of undefined (reading 'length')'')),
        [PoolQuerySchema, GenerateContent (SqlPrompt (schemaDescription demo_schema) (lit ''hi'')),
         PoolQuery (cleanedQuery (lit ''SELECT 1; SELECT 2''))])"
proof -
  let ?res = "\<lparr>rows = None :: nat list option, rowCount = None, result_fields = None\<rparr>"
  let ?w = "demo_world (Inr (lit ''SELECT 1; SELECT 2'')) (Inr ?res) (Inr (lit ''Two results.''))"
  let ?q = "cleanedQuery (lit ''SELECT 1; SELECT 2'')"
  have t: "lit ''hi'' \<noteq> [] \<and> fst (getDatabaseSchema ?w) = Inr demo_schema \<and> demo_schema \<noteq> []
        \<and> fst (generateSQLQuery ?w (lit ''hi'') demo_schema) = Inr ?q
        \<and> run_query ?w ?q = Inr ?res \<and> rows ?res = None"
    by (simp add: hi_nonempty demo_getDatabaseSchema demo_schema_nonempty
        demo_generateSQLQuery demo_run_query)
  show ?thesis
    using narrator_throws_without_rows [of ?w ?q _ _ "lit ''hi''" demo_schema ?res] t by simp
qed

text \<open>
  Claim C9. After a successful execution whose reported row count is \<^verbatim>\<open>null\<close> or 0,
  \<^verbatim>\<open>resultCount\<close> is 0 whatever the rows are, while \<^verbatim>\<open>hasData\<close> says whether there
  are rows and \<^verbatim>\<open>preview\<close> is the first ten of them.
\<close>

theorem falsy_row_count:
  assumes "msg \<noteq> []" "fst (getDatabaseSchema w) = Inr schema" "schema \<noteq> []"
    and "fst (generateSQLQuery w msg schema) = Inr q"
    and "run_query w q = Inr result" "rows result = Some rs"
    and "rowCount result = None \<or> rowCount result = Some 0"
  shows "\<exists>n d. fst (chat w (Body (Some msg))) = (200, ResponseTypeData n (lit ''success'') d)
      \<and> resultCount d = 0
      \<and> hasData d = (length rs > 0)
      \<and> preview d = Some (take 10 rs)"
proof -
  let ?r = "Success (Some rs) (rowCount result)
        (case result_fields result of None \<Rightarrow> [] | Some names \<Rightarrow> names)"
  have x: "fst (executeSQLQuery w q) = Inr ?r"
    using assms(5,6) by (simp add: executeSQLQuery_def)
  obtain p where p: "narration_prompt q ?r msg = Inr p"
    using narration_prompt_rows by blast
  obtain n where "fst (generateNaturalResponse w q ?r msg) = Inr n"
    using generateNaturalResponse_returns [OF p, of w] by auto
  with assms x have "fst (chat w (Body (Some msg))) = (200, response n q ?r)"
    by (simp add: chat_completes)
  then show ?thesis
    using assms(7) by (auto simp: response_def)
qed

text \<open>An instance of C9: two rows and no count.\<close>

theorem falsy_row_count_witness:
  "\<exists>n d. fst (chat (demo_world (Inr (lit ''SHOW server_version''))
                 (Inr \<lparr>rows = Some [16, 4], rowCount = None, result_fields = None\<rparr>)
                 (Inr (lit ''Version 16.'')))
               (Body (Some (lit ''hi''))))
        = (200, ResponseTypeData n (lit ''success'') d)
      \<and> resultCount d = 0 \<and> hasData d \<and> preview d = Some [16, 4]"
proof -
  let ?res = "\<lparr>rows = Some [16, 4::nat], rowCount = None, result_fields = None\<rparr>"
  let ?w = "demo_world (Inr (lit ''SHOW server_version'')) (Inr ?res) (Inr (lit ''Version 16.''))"
  have s: "fst (getDatabaseSchema ?w) = Inr demo_schema"
    by (simp add: demo_getDatabaseSchema)
  have g: "fst (generateSQLQuery ?w (lit ''hi'') demo_schema)
      = Inr (cleanedQuery (lit ''SHOW server_version''))"
    by (rule demo_generateSQLQuery)
  have r: "run_query ?w (cleanedQuery (lit ''SHOW server_version'')) = Inr ?res"
    by (rule demo_run_query)
  have d: "rows ?res = Some [16, 4]" by simp
  have c: "rowCount ?res = None \<or> rowCount ?res = Some 0" by simp
  show ?thesis
    using falsy_row_count [OF hi_nonempty s demo_schema_nonempty g r d c] by simp
qed

subsection \<open>The tables endpoint\<close>

text \<open>
  Claim C10. \<^verbatim>\<open>GET /api/tables\<close> always answers with status 200 and
  \<^verbatim>\<open>{success: true, tables, schema}\<close>, since \<^verbatim>\<open>getDatabaseSchema\<close> never throws: the
  500 branch is not reached. When the introspection query fails, the table list and the
  schema are empty.
\<close>

theorem tables_never_fails:
  "fst (fst (tables w)) = 200
   \<and> (\<exists>schema. tables w = ((200, TablesSuccess (object_keys schema) schema), [PoolQuerySchema]))
   \<and> (schema_rows w = Inl e \<longrightarrow>
        tables w = ((200, TablesSuccess [] []), [PoolQuerySchema]))"
proof -
  obtain schema where s: "getDatabaseSchema w = (Inr schema, [PoolQuerySchema])"
    using getDatabaseSchema_returns by blast
  then have "tables w = ((200, TablesSuccess (object_keys schema) schema), [PoolQuerySchema])"
    by (simp add: tables_def)
  moreover have "schema_rows w = Inl e \<longrightarrow>
      tables w = ((200, TablesSuccess [] []), [PoolQuerySchema])"
    by (simp add: tables_def getDatabaseSchema_query_failure object_keys_Nil)
  ultimately show ?thesis by auto
qed

text \<open>An instance of C10: the database refuses the introspection query.\<close>

theorem tables_never_fails_witness:
  "tables offline_world = ((200, TablesSuccess [] []), [PoolQuerySchema])"
proof -
  have "schema_rows offline_world = Inl (JsError (lit ''connect ECONNREFUSED''))"
    by (simp add: offline_world_def)
  then show ?thesis
    using tables_never_fails [of offline_world "JsError (lit ''connect ECONNREFUSED'')"] by simp
qed

end
